theory Spec2Isabelle
  imports Complex_Main "HOL-Library.AList"
begin

section \<open>Python strings\<close>

text \<open>
  A Python \<open>str\<close> is a sequence of Unicode code points, so it is modelled as a list of
  natural numbers: \<open>len\<close>, slicing and \<open>str.isspace\<close> all work on code points, not on
  the bytes of an encoding. \<open>lit\<close> turns a literal of the source into that form.
\<close>

type_synonym pystr = "nat list"

definition lit :: "string \<Rightarrow> pystr" where
  "lit s = map of_char s"

text \<open>The code points for which CPython's \<open>str.isspace\<close> holds; \<open>str.strip()\<close> and
  \<open>str.split()\<close> without arguments use the same set.\<close>

definition is_space :: "nat \<Rightarrow> bool" where
  "is_space c \<longleftrightarrow>
     (9 \<le> c \<and> c \<le> 13) \<or> (28 \<le> c \<and> c \<le> 32) \<or> c = 133 \<or> c = 160 \<or> c = 5760 \<or>
     (8192 \<le> c \<and> c \<le> 8202) \<or> c = 8232 \<or> c = 8233 \<or> c = 8239 \<or> c = 8287 \<or> c = 12288"

text \<open>\<open>s.strip()\<close>\<close>

definition strip :: "pystr \<Rightarrow> pystr" where
  "strip s = rev (dropWhile is_space (rev (dropWhile is_space s)))"

text \<open>\<open>s.split()\<close>: the maximal runs of non-whitespace, in order. \<open>cur\<close> holds the
  field being read, reversed.\<close>

fun split_from :: "pystr \<Rightarrow> pystr \<Rightarrow> pystr list" where
  "split_from cur [] = (if cur = [] then [] else [rev cur])"
| "split_from cur (c # cs) =
     (if is_space c
      then (if cur = [] then split_from [] cs else rev cur # split_from [] cs)
      else split_from (c # cur) cs)"

definition split :: "pystr \<Rightarrow> pystr list" where
  "split s = split_from [] s"

text \<open>\<open>s.startswith(p)\<close>\<close>

definition startswith :: "pystr \<Rightarrow> pystr \<Rightarrow> bool" where
  "startswith s p \<longleftrightarrow> take (length p) s = p"

text \<open>\<open>p in s\<close> for strings: \<open>p\<close> occurs in \<open>s\<close> as a contiguous run.\<close>

fun contains :: "pystr \<Rightarrow> pystr \<Rightarrow> bool" where
  "contains [] p = (p = [])"
| "contains (c # cs) p = (take (length p) (c # cs) = p \<or> contains cs p)"

text \<open>\<open>s.zfill(width)\<close>: zeros are put on the left up to \<open>width\<close> code points, after a
  leading sign if there is one.\<close>

definition zfill :: "nat \<Rightarrow> pystr \<Rightarrow> pystr" where
  "zfill width s =
     (if length s \<ge> width then s
      else (case s of
              [] \<Rightarrow> replicate width 48
            | c # cs \<Rightarrow>
                if c = 43 \<or> c = 45 then c # replicate (width - length s) 48 @ cs
                else replicate (width - length s) 48 @ s))"

text \<open>\<open>sep.join(parts)\<close>\<close>

fun join :: "pystr \<Rightarrow> pystr list \<Rightarrow> pystr" where
  "join sep [] = []"
| "join sep [p] = p"
| "join sep (p # q # ps) = p @ sep @ join sep (q # ps)"

section \<open>docker/manage.py: \<open>parse_cron_schedule\<close>\<close>

text \<open>Exceptions: the two the modelled code can raise by itself, and any other class by
  its name.\<close>

datatype py_exception = ValueError | KeyError | OtherException pystr

text \<open>\<open>minute, hour, day, month, weekday = parts\<close>: unpacking raises \<open>ValueError\<close>
  unless there are exactly five parts.\<close>

definition unpack5 :: "'a list \<Rightarrow> py_exception + ('a \<times> 'a \<times> 'a \<times> 'a \<times> 'a)" where
  "unpack5 parts =
     (case parts of
        [a, b, c, d, e] \<Rightarrow> Inr (a, b, c, d, e)
      | _ \<Rightarrow> Inl ValueError)"

definition minute_desc :: "pystr \<Rightarrow> pystr" where
  "minute_desc minute =
     (if minute = lit ''*'' then lit ''Every minute''
      else if startswith minute (lit ''*/'') then lit ''Every '' @ drop 2 minute @ lit '' minutes''
      else if contains minute (lit '','') then lit ''At minute '' @ minute
      else lit ''At minute '' @ minute)"

definition hour_desc :: "pystr \<Rightarrow> pystr" where
  "hour_desc hour =
     (if hour = lit ''*'' then lit ''Every hour''
      else if startswith hour (lit ''*/'') then lit ''Every '' @ drop 2 hour @ lit '' hours''
      else if contains hour (lit '','') then lit ''At hour '' @ hour
      else lit ''At hour '' @ hour)"

definition day_desc :: "pystr \<Rightarrow> pystr" where
  "day_desc day =
     (if day = lit ''*'' then lit ''Every day''
      else if startswith day (lit ''*/'') then lit ''Every '' @ drop 2 day @ lit '' days''
      else lit ''On day '' @ day @ lit '' of month'')"

definition month_desc :: "pystr \<Rightarrow> pystr" where
  "month_desc month =
     (if month = lit ''*'' then lit ''Every month'' else lit ''In month '' @ month)"

definition weekday_names :: "(pystr \<times> pystr) list" where
  "weekday_names =
     [(lit ''0'', lit ''Sunday''), (lit ''1'', lit ''Monday''), (lit ''2'', lit ''Tuesday''),
      (lit ''3'', lit ''Wednesday''), (lit ''4'', lit ''Thursday''), (lit ''5'', lit ''Friday''),
      (lit ''6'', lit ''Saturday''), (lit ''7'', lit ''Sunday'')]"

text \<open>\<open>weekday_names.get(weekday, weekday)\<close>\<close>

definition weekday_name :: "pystr \<Rightarrow> pystr" where
  "weekday_name weekday =
     (case map_of weekday_names weekday of Some name \<Rightarrow> name | None \<Rightarrow> weekday)"

definition weekday_desc :: "pystr \<Rightarrow> pystr" where
  "weekday_desc weekday =
     (if weekday = lit ''*'' then [] else lit ''on '' @ weekday_name weekday)"

text \<open>The list comprehension of the last branch: the descriptions that are not empty and
  not one of the three "every" defaults.\<close>

definition desc_parts :: "pystr \<Rightarrow> pystr \<Rightarrow> pystr \<Rightarrow> pystr \<Rightarrow> pystr \<Rightarrow> pystr list" where
  "desc_parts minute hour day month weekday =
     filter (\<lambda>part. part \<noteq> [] \<and> part \<noteq> lit ''Every month'' \<and> part \<noteq> lit ''Every day''
                      \<and> part \<noteq> lit ''Every hour'')
       [month_desc month, day_desc day, weekday_desc weekday, hour_desc hour, minute_desc minute]"

text \<open>The combination step, from \<open># Combine description\<close> to the end of the \<open>try\<close> block.\<close>

definition combine :: "pystr \<Rightarrow> pystr \<Rightarrow> pystr \<Rightarrow> pystr \<Rightarrow> pystr \<Rightarrow> pystr \<Rightarrow> pystr" where
  "combine cron_expr minute hour day month weekday =
     (if startswith minute (lit ''*/'') \<and> hour = lit ''*'' \<and> day = lit ''*'' \<and> month = lit ''*''
         \<and> weekday = lit ''*''
      then lit ''Runs every '' @ drop 2 minute @ lit '' minutes''
      else if hour \<noteq> lit ''*'' \<and> minute \<noteq> lit ''*'' \<and> day = lit ''*'' \<and> month = lit ''*''
         \<and> weekday = lit ''*''
      then lit ''Runs daily at '' @ hour @ lit '':'' @ zfill 2 minute
      else if weekday \<noteq> lit ''*'' \<and> day = lit ''*''
      then lit ''Runs '' @ weekday_desc weekday @ lit '' at '' @ hour @ lit '':'' @ zfill 2 minute
      else (let parts = desc_parts minute hour day month weekday
            in if parts \<noteq> [] then lit ''Runs '' @ join (lit '' '') parts
               else lit ''Complex expression: '' @ cron_expr))"

text \<open>The body of the \<open>try\<close> block: \<open>Inl\<close> is an exception raised inside it.\<close>

definition parse_cron_body :: "pystr \<Rightarrow> py_exception + pystr" where
  "parse_cron_body cron_expr =
     (let parts = split (strip cron_expr)
      in if length parts \<noteq> 5 then Inr (lit ''Original expression: '' @ cron_expr)
         else (case unpack5 parts of
                 Inl e \<Rightarrow> Inl e
               | Inr (minute, hour, day, month, weekday) \<Rightarrow>
                   Inr (combine cron_expr minute hour day month weekday)))"

text \<open>The whole function: the guard before the \<open>try\<close>, then the \<open>try\<close> block with its
  \<open>except Exception\<close> handler, which turns whatever the block raised into the
  "Parse failed" string. \<open>not cron_expr\<close> holds of the empty string.\<close>

definition except_handler :: "pystr \<Rightarrow> py_exception + pystr \<Rightarrow> pystr" where
  "except_handler cron_expr outcome =
     (case outcome of
        Inr description \<Rightarrow> description
      | Inl e \<Rightarrow> lit ''Parse failed: '' @ cron_expr)"

definition parse_cron_schedule :: "pystr \<Rightarrow> pystr" where
  "parse_cron_schedule cron_expr =
     (if cron_expr = [] \<or> cron_expr = lit ''Not Set'' then lit ''Not Set''
      else except_handler cron_expr (parse_cron_body cron_expr))"

section \<open>mcp_server/server.py: \<open>_get_tools\<close>\<close>

text \<open>
  The five tool classes are imported from \<open>.tools\<close>, which is not among the sources, so
  their constructors are a parameter: \<open>ctor cls project_root\<close> either raises or
  yields the content of the new object. An instance is an object, so it carries the
  address it was allocated at: two instances are the same object iff they are equal here.
\<close>

datatype tool_class =
  DataQueryTools | AnalyticsTools | SearchTools | ConfigManagementTools | SystemManagementTools

record 'obj tool_instance =
  address :: nat
  content :: 'obj

text \<open>The module's state: the global dictionary \<open>_tools_instances\<close> (a Python dict keeps
  its keys in insertion order, as \<open>AList.update\<close> does) and the next free address.\<close>

record 'obj server_state =
  tools_instances :: "(pystr \<times> 'obj tool_instance) list"
  next_address :: nat

text \<open>\<open>_tools_instances = {}\<close> at import.\<close>

definition initial_state :: "'obj server_state" where
  "initial_state = \<lparr>tools_instances = [], next_address = 0\<rparr>"

text \<open>The five assignments of \<open>_get_tools\<close>, in the order of the source.\<close>

definition tool_table :: "(pystr \<times> tool_class) list" where
  "tool_table =
     [(lit ''data'', DataQueryTools), (lit ''analytics'', AnalyticsTools),
      (lit ''search'', SearchTools), (lit ''config'', ConfigManagementTools),
      (lit ''system'', SystemManagementTools)]"

text \<open>\<open>_tools_instances[key] = Cls(project_root)\<close> for each entry in turn. An exception of
  a constructor ends the run; the assignments made before it stay in the dictionary.\<close>

fun assign_tools ::
  "(tool_class \<Rightarrow> pystr option \<Rightarrow> py_exception + 'obj) \<Rightarrow> pystr option \<Rightarrow>
   (pystr \<times> tool_class) list \<Rightarrow> 'obj server_state \<Rightarrow> py_exception option \<times> 'obj server_state"
where
  "assign_tools ctor project_root [] st = (None, st)"
| "assign_tools ctor project_root ((key, cls) # rest) st =
     (case ctor cls project_root of
        Inl e \<Rightarrow> (Some e, st)
      | Inr c \<Rightarrow>
          assign_tools ctor project_root rest
            (st\<lparr>tools_instances :=
                  AList.update key \<lparr>address = next_address st, content = c\<rparr> (tools_instances st),
                next_address := Suc (next_address st)\<rparr>))"

text \<open>\<open>_get_tools(project_root)\<close>: the value returned (or the exception raised) and the
  state afterwards. \<open>not _tools_instances\<close> holds of the empty dictionary only.\<close>

definition get_tools ::
  "(tool_class \<Rightarrow> pystr option \<Rightarrow> py_exception + 'obj) \<Rightarrow> pystr option \<Rightarrow>
   'obj server_state \<Rightarrow> (py_exception + (pystr \<times> 'obj tool_instance) list) \<times> 'obj server_state"
where
  "get_tools ctor project_root st =
     (if tools_instances st = []
      then (case assign_tools ctor project_root tool_table st of
              (Some e, st') \<Rightarrow> (Inl e, st')
            | (None, st') \<Rightarrow> (Inr (tools_instances st'), st'))
      else (Inr (tools_instances st), st))"

text \<open>A run of calls, one per \<open>project_root\<close> of the list: what each returned, and the
  state at the end.\<close>

fun get_tools_calls ::
  "(tool_class \<Rightarrow> pystr option \<Rightarrow> py_exception + 'obj) \<Rightarrow> pystr option list \<Rightarrow>
   'obj server_state \<Rightarrow> (py_exception + (pystr \<times> 'obj tool_instance) list) list \<times> 'obj server_state"
where
  "get_tools_calls ctor [] st = ([], st)"
| "get_tools_calls ctor (project_root # roots) st =
     (let (r, st') = get_tools ctor project_root st;
          (rs, st'') = get_tools_calls ctor roots st'
      in (r # rs, st''))"

text \<open>What every tool handler starts with: \<open>tools = _get_tools()\<close> and then
  \<open>tools[key]\<close>, which raises \<open>KeyError\<close> for a missing key.\<close>

definition handler_tool ::
  "(tool_class \<Rightarrow> pystr option \<Rightarrow> py_exception + 'obj) \<Rightarrow> pystr \<Rightarrow> 'obj server_state \<Rightarrow>
   (py_exception + 'obj tool_instance) \<times> 'obj server_state"
where
  "handler_tool ctor key st =
     (case get_tools ctor None st of
        (Inl e, st') \<Rightarrow> (Inl e, st')
      | (Inr tools, st') \<Rightarrow>
          (case map_of tools key of
             None \<Rightarrow> (Inl KeyError, st')
           | Some inst \<Rightarrow> (Inr inst, st')))"

section \<open>Word groups and keyword co-occurrence\<close>

text \<open>
  Modelled from the spec: the word-group matcher and the co-occurrence strength of the
  insights engine, whose code (\<open>mcp_server/tools/analytics.py\<close> and the services it
  calls) is not among the sources; \<open>server.py\<close> only forwards the request to it. The
  definitions follow sections 3 and 4.3 of the specification.
\<close>

text \<open>Modelled from the spec: a WordGroup, "one attention topic defined by three term
  sets": required (all must match), optional (any one matches), excluded (presence vetoes
  a match).\<close>

record word_group =
  group_name :: pystr
  required :: "pystr list"
  optional :: "pystr list"
  excluded :: "pystr list"

text \<open>Modelled from the spec: "A news item matches a group iff (required \<subseteq> item-terms, or
  required empty) AND (optional \<inter> item-terms \<noteq> \<emptyset>, or optional empty) AND (excluded \<inter>
  item-terms = \<emptyset>)", with the invariant that "a WordGroup with empty required and empty
  optional matches nothing". \<open>terms\<close> are the item's terms.\<close>

definition matches_group :: "word_group \<Rightarrow> pystr list \<Rightarrow> bool" where
  "matches_group g terms =
     (if required g = [] \<and> optional g = [] then False
      else (required g = [] \<or> list_all (\<lambda>t. t \<in> set terms) (required g))
         \<and> (optional g = [] \<or> list_ex (\<lambda>t. t \<in> set terms) (optional g))
         \<and> \<not> list_ex (\<lambda>t. t \<in> set terms) (excluded g))"

text \<open>Modelled from the spec: a NewsItem with the fields of section 3; \<open>capturedAt\<close> is
  in seconds.\<close>

record news_item =
  title :: pystr
  platformId :: pystr
  rank :: nat
  url :: "pystr option"
  capturedAt :: nat
  batchId :: nat

text \<open>Modelled from the spec: "Title is the primary matching key", so the item-terms are
  the terms of the title. The specification does not give the rule that cuts a title
  into terms; it is the parameter \<open>terms_of\<close>.\<close>

definition item_terms :: "(pystr \<Rightarrow> pystr list) \<Rightarrow> news_item \<Rightarrow> pystr list" where
  "item_terms terms_of item = terms_of (title item)"

definition item_matches :: "(pystr \<Rightarrow> pystr list) \<Rightarrow> word_group \<Rightarrow> news_item \<Rightarrow> bool" where
  "item_matches terms_of g item = matches_group g (item_terms terms_of item)"

text \<open>Modelled from the spec: a dateRange, "an object with start/end in YYYY-MM-DD"; both
  ends are days, counted from a fixed day zero, and both are inclusive.\<close>

record date_range =
  range_start :: nat
  range_end :: nat

text \<open>Modelled from the spec: the day a timestamp falls on, and whether an item was
  captured within a range.\<close>

definition day_of :: "nat \<Rightarrow> nat" where
  "day_of seconds = seconds div 86400"

definition in_range :: "date_range \<Rightarrow> news_item \<Rightarrow> bool" where
  "in_range r item \<longleftrightarrow>
     range_start r \<le> day_of (capturedAt item) \<and> day_of (capturedAt item) \<le> range_end r"

text \<open>Modelled from the spec: the candidate items of a query, each stored item of the
  range once.\<close>

definition items_in_range :: "news_item list \<Rightarrow> date_range \<Rightarrow> news_item list" where
  "items_in_range corpus r = remdups (filter (in_range r) corpus)"

text \<open>Modelled from the spec: \<open>keyword_cooccur\<close> "reports the intersection count and a
  normalized co-occurrence strength (intersection / union, i.e. Jaccard)" of the two
  groups' matched item sets. The quotient does not exist when no item matches either
  group (no count reaches a positive \<open>minFrequency\<close> then); that is \<open>None\<close>.\<close>

definition intersection_count ::
  "(pystr \<Rightarrow> pystr list) \<Rightarrow> news_item list \<Rightarrow> date_range \<Rightarrow> word_group \<Rightarrow> word_group \<Rightarrow> nat"
where
  "intersection_count terms_of corpus r a b =
     length (filter (\<lambda>item. item_matches terms_of a item \<and> item_matches terms_of b item)
               (items_in_range corpus r))"

definition union_count ::
  "(pystr \<Rightarrow> pystr list) \<Rightarrow> news_item list \<Rightarrow> date_range \<Rightarrow> word_group \<Rightarrow> word_group \<Rightarrow> nat"
where
  "union_count terms_of corpus r a b =
     length (filter (\<lambda>item. item_matches terms_of a item \<or> item_matches terms_of b item)
               (items_in_range corpus r))"

definition cooccur ::
  "(pystr \<Rightarrow> pystr list) \<Rightarrow> news_item list \<Rightarrow> date_range \<Rightarrow> word_group \<Rightarrow> word_group \<Rightarrow>
   rat option"
where
  "cooccur terms_of corpus r a b =
     (if union_count terms_of corpus r a b = 0 then None
      else Some (of_nat (intersection_count terms_of corpus r a b)
                 / of_nat (union_count terms_of corpus r a b)))"

text \<open>Modelled from the spec: the matched item set of a group within a date range, the
  set the co-occurrence is stated about.\<close>

definition matched_items ::
  "(pystr \<Rightarrow> pystr list) \<Rightarrow> news_item list \<Rightarrow> date_range \<Rightarrow> word_group \<Rightarrow> news_item set"
where
  "matched_items terms_of corpus r g =
     {item \<in> set corpus. in_range r item \<and> item_matches terms_of g item}"

text \<open>Example data: two groups, and four stored items of which the last lies outside the
  range of days 10 to 12. In the examples a title is cut into terms at whitespace.\<close>

definition example_group_a :: word_group where
  "example_group_a =
     \<lparr>group_name = lit ''tesla'', required = [lit ''tesla''], optional = [], excluded = []\<rparr>"

definition example_group_b :: word_group where
  "example_group_b =
     \<lparr>group_name = lit ''price'', required = [], optional = [lit ''price'', lit ''cut''],
      excluded = [lit ''rumor'']\<rparr>"

definition example_corpus :: "news_item list" where
  "example_corpus =
     [\<lparr>title = lit ''tesla cuts price'', platformId = lit ''weibo'', rank = 1, url = None,
       capturedAt = 867600, batchId = 1\<rparr>,
      \<lparr>title = lit ''tesla opens factory'', platformId = lit ''zhihu'', rank = 3, url = None,
       capturedAt = 871200, batchId = 2\<rparr>,
      \<lparr>title = lit ''rumor of price cut'', platformId = lit ''weibo'', rank = 2, url = None,
       capturedAt = 950400, batchId = 3\<rparr>,
      \<lparr>title = lit ''phone price cut'', platformId = lit ''weibo'', rank = 5, url = None,
       capturedAt = 2592000, batchId = 9\<rparr>]"

definition example_range :: date_range where
  "example_range = \<lparr>range_start = 10, range_end = 12\<rparr>"

section \<open>Properties of \<open>parse_cron_schedule\<close>\<close>

lemma split_from_spaces:
  "\<forall>c\<in>set ws. is_space c \<Longrightarrow> split_from cur ws = (if cur = [] then [] else [rev cur])"
  by (induction ws arbitrary: cur) auto

lemma split_from_append_spaces:
  "\<forall>c\<in>set ws. is_space c \<Longrightarrow> split_from cur (xs @ ws) = split_from cur xs"
  by (induction xs arbitrary: cur) (auto simp: split_from_spaces)

lemma split_from_dropWhile:
  "split_from [] (dropWhile is_space s) = split_from [] s"
  by (induction s) auto

lemma rev_dropWhile_rev:
  "\<exists>ws. (\<forall>c\<in>set ws. P c) \<and> s = rev (dropWhile P (rev s)) @ ws"
proof -
  have "rev s = takeWhile P (rev s) @ dropWhile P (rev s)" by simp
  then have "s = rev (dropWhile P (rev s)) @ rev (takeWhile P (rev s))"
    by (metis rev_append rev_rev_ident)
  moreover have "\<forall>c\<in>set (rev (takeWhile P (rev s))). P c"
    by (auto dest: set_takeWhileD)
  ultimately show ?thesis by blast
qed

text \<open>\<open>strip()\<close> before \<open>split()\<close> changes nothing: the fields of the stripped string are
  the fields of the string.\<close>

lemma split_strip: "split (strip s) = split s"
proof -
  obtain ws where ws: "\<forall>c\<in>set ws. is_space c"
    and eq: "dropWhile is_space s = strip s @ ws"
    unfolding strip_def using rev_dropWhile_rev [of is_space "dropWhile is_space s"] by blast
  have "split s = split_from [] (dropWhile is_space s)"
    by (simp add: split_def split_from_dropWhile)
  also have "\<dots> = split_from [] (strip s)"
    unfolding eq using ws by (rule split_from_append_spaces)
  finally show ?thesis by (simp add: split_def)
qed

text \<open>The description of the minute field always survives the filter of the last branch,
  so that branch never falls through to "Complex expression".\<close>

lemma minute_desc_kept:
  "minute_desc m \<noteq> [] \<and> minute_desc m \<noteq> lit ''Every month'' \<and> minute_desc m \<noteq> lit ''Every day''
     \<and> minute_desc m \<noteq> lit ''Every hour''"
  by (auto simp: minute_desc_def lit_def dest: arg_cong [where f = length])

lemma desc_parts_nonempty: "desc_parts minute hour day month weekday \<noteq> []"
  using minute_desc_kept [of minute] by (simp add: desc_parts_def)

lemma combine_runs:
  "\<exists>rest. combine cron_expr minute hour day month weekday = lit ''Runs '' @ rest"
  by (simp add: combine_def Let_def desc_parts_nonempty lit_def)

lemma unpack5_ok:
  "length parts = 5 \<Longrightarrow>
   \<exists>a b c d e. parts = [a, b, c, d, e] \<and> unpack5 parts = Inr (a, b, c, d, e)"
  by (auto simp: unpack5_def length_Suc_conv eval_nat_numeral split: list.splits)

text \<open>The \<open>try\<close> block raises nothing on a string: the unpacking is only reached with five
  parts.\<close>

lemma parse_cron_body_returns: "\<exists>description. parse_cron_body cron_expr = Inr description"
proof (cases "length (split (strip cron_expr)) = 5")
  case True
  from unpack5_ok [OF True] show ?thesis
    by (auto simp: parse_cron_body_def Let_def)
next
  case False
  then show ?thesis by (simp add: parse_cron_body_def Let_def)
qed

lemma parse_cron_body_five:
  assumes "split cron_expr = [minute, hour, day, month, weekday]"
  shows "parse_cron_body cron_expr = Inr (combine cron_expr minute hour day month weekday)"
  using assms by (simp add: parse_cron_body_def split_strip unpack5_def)

text \<open>
  C10. \<open>parse_cron_schedule\<close> is total on strings and raises nothing: its \<open>try\<close> block
  always returns, and any exception raised there would be answered by "Parse failed: "
  followed by the input. For the empty string and for "Not Set" the result is "Not Set".
  For any other input whose whitespace-split has not exactly five fields it is
  "Original expression: " followed by the input. For any other input with five fields it
  is the description that the combination step builds from the five fields, and that
  description begins with "Runs ".
\<close>

theorem parse_cron_schedule_total:
  "(\<exists>description. parse_cron_body cron_expr = Inr description) \<and>
   (\<forall>e. except_handler cron_expr (Inl e) = lit ''Parse failed: '' @ cron_expr) \<and>
   (cron_expr = [] \<or> cron_expr = lit ''Not Set'' \<longrightarrow>
      parse_cron_schedule cron_expr = lit ''Not Set'') \<and>
   (cron_expr \<noteq> [] \<and> cron_expr \<noteq> lit ''Not Set'' \<and> length (split cron_expr) \<noteq> 5 \<longrightarrow>
      parse_cron_schedule cron_expr = lit ''Original expression: '' @ cron_expr) \<and>
   (cron_expr \<noteq> [] \<and> cron_expr \<noteq> lit ''Not Set'' \<and> length (split cron_expr) = 5 \<longrightarrow>
      (\<exists>minute hour day month weekday rest.
         split cron_expr = [minute, hour, day, month, weekday] \<and>
         parse_cron_schedule cron_expr = combine cron_expr minute hour day month weekday \<and>
         parse_cron_schedule cron_expr = lit ''Runs '' @ rest))"
proof (intro conjI impI allI)
  show "\<exists>description. parse_cron_body cron_expr = Inr description"
    by (rule parse_cron_body_returns)
next
  fix e
  show "except_handler cron_expr (Inl e) = lit ''Parse failed: '' @ cron_expr"
    by (simp add: except_handler_def)
next
  assume "cron_expr = [] \<or> cron_expr = lit ''Not Set''"
  then show "parse_cron_schedule cron_expr = lit ''Not Set''"
    by (auto simp: parse_cron_schedule_def)
next
  assume "cron_expr \<noteq> [] \<and> cron_expr \<noteq> lit ''Not Set'' \<and> length (split cron_expr) \<noteq> 5"
  then show "parse_cron_schedule cron_expr = lit ''Original expression: '' @ cron_expr"
    by (simp add: parse_cron_schedule_def except_handler_def parse_cron_body_def split_strip)
next
  assume a: "cron_expr \<noteq> [] \<and> cron_expr \<noteq> lit ''Not Set'' \<and> length (split cron_expr) = 5"
  then obtain minute hour day month weekday
    where parts: "split cron_expr = [minute, hour, day, month, weekday]"
    using unpack5_ok [of "split cron_expr"] by blast
  have r: "parse_cron_schedule cron_expr = combine cron_expr minute hour day month weekday"
    using a by (simp add: parse_cron_schedule_def except_handler_def parse_cron_body_five [OF parts])
  obtain rest where "combine cron_expr minute hour day month weekday = lit ''Runs '' @ rest"
    using combine_runs by blast
  with parts r
  show "\<exists>minute hour day month weekday rest.
          split cron_expr = [minute, hour, day, month, weekday] \<and>
          parse_cron_schedule cron_expr = combine cron_expr minute hour day month weekday \<and>
          parse_cron_schedule cron_expr = lit ''Runs '' @ rest"
    by metis
qed

theorem parse_cron_schedule_total_witness:
  "parse_cron_schedule [] = lit ''Not Set'' \<and>
   parse_cron_schedule (lit ''Not Set'') = lit ''Not Set'' \<and>
   (lit ''every day'' \<noteq> [] \<and> lit ''every day'' \<noteq> lit ''Not Set'' \<and>
    length (split (lit ''every day'')) \<noteq> 5 \<and>
    parse_cron_schedule (lit ''every day'') = lit ''Original expression: every day'') \<and>
   (lit '' 0 9 *  * 1 '' \<noteq> [] \<and> lit '' 0 9 *  * 1 '' \<noteq> lit ''Not Set'' \<and>
    length (split (lit '' 0 9 *  * 1 '')) = 5 \<and>
    parse_cron_schedule (lit '' 0 9 *  * 1 '') = lit ''Runs on Monday at 9:00'')"
proof -
  have h1: "lit ''every day'' \<noteq> [] \<and> lit ''every day'' \<noteq> lit ''Not Set'' \<and>
            length (split (lit ''every day'')) \<noteq> 5"
    by (simp add: lit_def split_def is_space_def)
  have fields: "split (lit '' 0 9 *  * 1 '') = [lit ''0'', lit ''9'', lit ''*'', lit ''*'', lit ''1'']"
    by (simp add: lit_def split_def is_space_def)
  have h2: "lit '' 0 9 *  * 1 '' \<noteq> [] \<and> lit '' 0 9 *  * 1 '' \<noteq> lit ''Not Set'' \<and>
            length (split (lit '' 0 9 *  * 1 '')) = 5"
    by (simp add: fields) (simp add: lit_def)
  have c0: "parse_cron_schedule [] = lit ''Not Set''"
    using parse_cron_schedule_total [of "[]"] by simp
  have c1: "parse_cron_schedule (lit ''Not Set'') = lit ''Not Set''"
    using parse_cron_schedule_total [of "lit ''Not Set''"] by simp
  have c2: "parse_cron_schedule (lit ''every day'') = lit ''Original expression: '' @ lit ''every day''"
    using parse_cron_schedule_total [of "lit ''every day''"] h1 by blast
  have "parse_cron_schedule (lit '' 0 9 *  * 1 '')
          = combine (lit '' 0 9 *  * 1 '') (lit ''0'') (lit ''9'') (lit ''*'') (lit ''*'') (lit ''1'')"
    using parse_cron_schedule_total [of "lit '' 0 9 *  * 1 ''"] h2 unfolding fields by blast
  also have "\<dots> = lit ''Runs on Monday at 9:00''"
    by (simp add: combine_def startswith_def zfill_def weekday_desc_def weekday_name_def
        weekday_names_def lit_def)
  finally have c3: "parse_cron_schedule (lit '' 0 9 *  * 1 '') = lit ''Runs on Monday at 9:00''" .
  have "lit ''Original expression: '' @ lit ''every day'' = lit ''Original expression: every day''"
    by (simp add: lit_def)
  with h1 h2 c0 c1 c2 c3 show ?thesis by simp
qed

section \<open>Properties of \<open>_get_tools\<close>\<close>

text \<open>Once the dictionary is not empty, a call returns it and changes nothing, whatever
  \<open>project_root\<close> is and whatever the constructors would do.\<close>

lemma get_tools_initialized:
  "tools_instances st \<noteq> [] \<Longrightarrow> get_tools ctor project_root st = (Inr (tools_instances st), st)"
  by (simp add: get_tools_def)

lemma get_tools_calls_initialized:
  "tools_instances st \<noteq> [] \<Longrightarrow>
   get_tools_calls ctor roots st = (replicate (length roots) (Inr (tools_instances st)), st)"
  by (induction roots) (simp_all add: get_tools_initialized)

lemma handler_tool_initialized:
  "tools_instances st \<noteq> [] \<Longrightarrow> map_of (tools_instances st) key = Some inst \<Longrightarrow>
   handler_tool ctor key st = (Inr inst, st)"
  by (simp add: handler_tool_def get_tools_initialized)

text \<open>A first call that returns has run all five constructors with its \<open>project_root\<close>.\<close>

lemma get_tools_first:
  assumes "get_tools ctor root0 initial_state = (Inr tools, st)"
  shows "\<exists>c1 c2 c3 c4 c5.
           ctor DataQueryTools root0 = Inr c1 \<and> ctor AnalyticsTools root0 = Inr c2 \<and>
           ctor SearchTools root0 = Inr c3 \<and> ctor ConfigManagementTools root0 = Inr c4 \<and>
           ctor SystemManagementTools root0 = Inr c5 \<and>
           tools = [(lit ''data'', \<lparr>address = 0, content = c1\<rparr>),
                    (lit ''analytics'', \<lparr>address = 1, content = c2\<rparr>),
                    (lit ''search'', \<lparr>address = 2, content = c3\<rparr>),
                    (lit ''config'', \<lparr>address = 3, content = c4\<rparr>),
                    (lit ''system'', \<lparr>address = 4, content = c5\<rparr>)] \<and>
           st = \<lparr>tools_instances = tools, next_address = 5\<rparr>"
  using assms
  by (auto simp: get_tools_def initial_state_def tool_table_def lit_def split: sum.splits)

text \<open>The case the next theorem leaves out: when a constructor raises in the first call,
  the entries assigned before it stay, so the dictionary is no longer empty and later
  calls return it as it is.\<close>

lemma get_tools_partial:
  assumes "ctor DataQueryTools root0 = Inr c1" and "ctor AnalyticsTools root0 = Inl e"
  shows "\<exists>st. get_tools ctor root0 initial_state = (Inl e, st) \<and>
           get_tools ctor' project_root st
             = (Inr [(lit ''data'', \<lparr>address = 0, content = c1\<rparr>)], st)"
  using assms by (simp add: get_tools_def initial_state_def tool_table_def lit_def)

text \<open>
  C9. After the first call to \<open>_get_tools\<close> has returned (with the dictionary \<open>tools\<close>,
  from the empty dictionary the module starts with), every later call returns that same
  dictionary and leaves the state as it is, for any \<open>project_root\<close> arguments and whatever
  the constructors would do then. The dictionary has the five keys \<open>data\<close>,
  \<open>analytics\<close>, \<open>search\<close>, \<open>config\<close>, \<open>system\<close>, its five instances are distinct
  objects, each built by its class's constructor from the first call's \<open>project_root\<close>,
  and after any run of later calls a tool handler that looks a key up gets exactly that
  instance.
\<close>

theorem get_tools_singleton:
  assumes "get_tools ctor root0 initial_state = (Inr tools, st)"
  shows "(\<forall>ctor' roots. get_tools_calls ctor' roots st = (replicate (length roots) (Inr tools), st)) \<and>
         map fst tools = [lit ''data'', lit ''analytics'', lit ''search'', lit ''config'', lit ''system''] \<and>
         distinct (map (address \<circ> snd) tools) \<and>
         (\<forall>(key, cls) \<in> set tool_table.
            \<exists>inst. map_of tools key = Some inst \<and> ctor cls root0 = Inr (content inst) \<and>
              (\<forall>ctor' roots.
                 handler_tool ctor' key (snd (get_tools_calls ctor' roots st)) = (Inr inst, st)))"
proof -
  from get_tools_first [OF assms] obtain c1 c2 c3 c4 c5 where
    c: "ctor DataQueryTools root0 = Inr c1" "ctor AnalyticsTools root0 = Inr c2"
       "ctor SearchTools root0 = Inr c3" "ctor ConfigManagementTools root0 = Inr c4"
       "ctor SystemManagementTools root0 = Inr c5"
    and tools: "tools = [(lit ''data'', \<lparr>address = 0, content = c1\<rparr>),
                    (lit ''analytics'', \<lparr>address = 1, content = c2\<rparr>),
                    (lit ''search'', \<lparr>address = 2, content = c3\<rparr>),
                    (lit ''config'', \<lparr>address = 3, content = c4\<rparr>),
                    (lit ''system'', \<lparr>address = 4, content = c5\<rparr>)]"
    and st: "st = \<lparr>tools_instances = tools, next_address = 5\<rparr>"
    by blast
  have ne: "tools_instances st \<noteq> []" and ti: "tools_instances st = tools"
    by (simp_all add: st tools)
  have calls: "get_tools_calls ctor' roots st = (replicate (length roots) (Inr tools), st)"
    for ctor' :: "tool_class \<Rightarrow> pystr option \<Rightarrow> py_exception + 'a" and roots
    using get_tools_calls_initialized [OF ne, of ctor' roots] by (simp add: ti)
  have handler: "handler_tool ctor' key (snd (get_tools_calls ctor' roots st)) = (Inr inst, st)"
    if "map_of tools key = Some inst"
    for ctor' :: "tool_class \<Rightarrow> pystr option \<Rightarrow> py_exception + 'a" and roots key inst
    using that handler_tool_initialized [OF ne, of key inst ctor'] by (simp add: calls ti)
  have keys: "map fst tools = [lit ''data'', lit ''analytics'', lit ''search'', lit ''config'', lit ''system'']"
    by (simp add: tools)
  have addrs: "distinct (map (address \<circ> snd) tools)"
    by (simp add: tools)
  have each: "\<exists>inst. map_of tools key = Some inst \<and> ctor cls root0 = Inr (content inst)"
    if "(key, cls) \<in> set tool_table" for key cls
    using that c by (auto simp: tool_table_def tools lit_def)
  have handlers: "\<forall>(key, cls) \<in> set tool_table.
            \<exists>inst. map_of tools key = Some inst \<and> ctor cls root0 = Inr (content inst) \<and>
              (\<forall>ctor' roots.
                 handler_tool ctor' key (snd (get_tools_calls ctor' roots st)) = (Inr inst, st))"
  proof (rule ballI)
    fix p assume p: "p \<in> set tool_table"
    obtain key cls where kc: "p = (key, cls)" by (cases p)
    from each [of key cls] p kc obtain inst
      where inst: "map_of tools key = Some inst" "ctor cls root0 = Inr (content inst)"
      by blast
    from inst handler [OF inst(1)]
    show "case p of (key, cls) \<Rightarrow>
            \<exists>inst. map_of tools key = Some inst \<and> ctor cls root0 = Inr (content inst) \<and>
              (\<forall>ctor' roots.
                 handler_tool ctor' key (snd (get_tools_calls ctor' roots st)) = (Inr inst, st))"
      unfolding kc by blast
  qed
  from calls keys addrs handlers show ?thesis by blast
qed

theorem get_tools_singleton_witness:
  "\<exists>tools st.
     get_tools (\<lambda>cls project_root. Inr (cls, project_root)) (Some (lit ''/app'')) initial_state
       = (Inr tools, st) \<and>
     get_tools_calls (\<lambda>cls project_root. Inr (cls, project_root)) [None, Some (lit ''/srv'')] st
       = ([Inr tools, Inr tools], st) \<and>
     handler_tool (\<lambda>cls project_root. Inr (cls, project_root)) (lit ''search'') st
       = (Inr \<lparr>address = 2, content = (SearchTools, Some (lit ''/app''))\<rparr>, st)"
proof -
  let ?mk = "\<lambda>cls project_root. Inr (cls, project_root) :: py_exception + tool_class \<times> pystr option"
  let ?root = "Some (lit ''/app'')"
  let ?T = "[(lit ''data'', \<lparr>address = 0, content = (DataQueryTools, ?root)\<rparr>),
             (lit ''analytics'', \<lparr>address = 1, content = (AnalyticsTools, ?root)\<rparr>),
             (lit ''search'', \<lparr>address = 2, content = (SearchTools, ?root)\<rparr>),
             (lit ''config'', \<lparr>address = 3, content = (ConfigManagementTools, ?root)\<rparr>),
             (lit ''system'', \<lparr>address = 4, content = (SystemManagementTools, ?root)\<rparr>)]"
  let ?S = "\<lparr>tools_instances = ?T, next_address = 5\<rparr>"
  have first: "get_tools ?mk ?root initial_state = (Inr ?T, ?S)"
    by (simp add: get_tools_def initial_state_def tool_table_def lit_def)
  note later = get_tools_singleton [OF first]
  from later have "get_tools_calls ?mk [None, Some (lit ''/srv'')] ?S
      = (replicate (length [None, Some (lit ''/srv'')]) (Inr ?T), ?S)"
    by blast
  then have calls: "get_tools_calls ?mk [None, Some (lit ''/srv'')] ?S = ([Inr ?T, Inr ?T], ?S)"
    by (simp add: numeral_2_eq_2)
  have "(lit ''search'', SearchTools) \<in> set tool_table"
    by (simp add: tool_table_def)
  with later obtain inst where inst: "map_of ?T (lit ''search'') = Some inst"
    and h: "handler_tool ?mk (lit ''search'') (snd (get_tools_calls ?mk [] ?S)) = (Inr inst, ?S)"
    by blast
  from inst have "inst = \<lparr>address = 2, content = (SearchTools, ?root)\<rparr>"
    by (simp add: lit_def)
  with h have "handler_tool ?mk (lit ''search'') ?S
      = (Inr \<lparr>address = 2, content = (SearchTools, ?root)\<rparr>, ?S)"
    by simp
  with first calls show ?thesis by blast
qed

section \<open>Properties of word groups and co-occurrence\<close>

text \<open>
  C4. An item with terms \<open>terms\<close> matches a group iff the group's required and optional
  sets are not both empty and (required \<subseteq> terms, or required is empty) and (optional
  meets terms, or optional is empty) and excluded does not meet terms. So a group whose
  required and optional sets are both empty matches no item.
\<close>

theorem matches_group_iff:
  "matches_group g terms \<longleftrightarrow>
     \<not> (set (required g) = {} \<and> set (optional g) = {}) \<and>
     (set (required g) \<subseteq> set terms \<or> set (required g) = {}) \<and>
     (set (optional g) \<inter> set terms \<noteq> {} \<or> set (optional g) = {}) \<and>
     set (excluded g) \<inter> set terms = {}"
  by (auto simp: matches_group_def list_all_iff list_ex_iff)

theorem matches_group_iff_witness:
  "matches_group example_group_b (split (lit ''tesla cuts price'')) \<and>
   \<not> matches_group example_group_b (split (lit ''rumor of price cut'')) \<and>
   \<not> matches_group \<lparr>group_name = lit ''all'', required = [], optional = [], excluded = []\<rparr>
        (split (lit ''tesla cuts price''))"
  using matches_group_iff [of example_group_b "split (lit ''tesla cuts price'')"]
    matches_group_iff [of example_group_b "split (lit ''rumor of price cut'')"]
    matches_group_iff [of "\<lparr>group_name = lit ''all'', required = [], optional = [], excluded = []\<rparr>"
      "split (lit ''tesla cuts price'')"]
  by (simp add: example_group_b_def split_def is_space_def lit_def)

lemma length_filter_items:
  "length (filter P (items_in_range corpus r)) = card {item \<in> set corpus. in_range r item \<and> P item}"
proof -
  have "length (filter P (items_in_range corpus r)) = card ({x. P x} \<inter> set (items_in_range corpus r))"
    by (simp add: items_in_range_def distinct_length_filter)
  also have "{x. P x} \<inter> set (items_in_range corpus r) = {item \<in> set corpus. in_range r item \<and> P item}"
    by (auto simp: items_in_range_def)
  finally show ?thesis .
qed

lemma intersection_count_card:
  "intersection_count terms_of corpus r a b
     = card (matched_items terms_of corpus r a \<inter> matched_items terms_of corpus r b)"
proof -
  have "matched_items terms_of corpus r a \<inter> matched_items terms_of corpus r b
      = {item \<in> set corpus. in_range r item \<and>
           (item_matches terms_of a item \<and> item_matches terms_of b item)}"
    by (auto simp: matched_items_def)
  then show ?thesis by (simp add: intersection_count_def length_filter_items)
qed

lemma union_count_card:
  "union_count terms_of corpus r a b
     = card (matched_items terms_of corpus r a \<union> matched_items terms_of corpus r b)"
proof -
  have "matched_items terms_of corpus r a \<union> matched_items terms_of corpus r b
      = {item \<in> set corpus. in_range r item \<and>
           (item_matches terms_of a item \<or> item_matches terms_of b item)}"
    by (auto simp: matched_items_def)
  then show ?thesis by (simp add: union_count_def length_filter_items)
qed

lemma finite_matched_items: "finite (matched_items terms_of corpus r g)"
  by (simp add: matched_items_def)

text \<open>A pair that co-occurs at least once has a strength: the union is not empty then.\<close>

lemma cooccur_defined:
  assumes "0 < intersection_count terms_of corpus r a b"
  shows "\<exists>q. cooccur terms_of corpus r a b = Some q"
proof -
  have "matched_items terms_of corpus r a \<inter> matched_items terms_of corpus r b
          \<subseteq> matched_items terms_of corpus r a \<union> matched_items terms_of corpus r b"
    by blast
  then have "intersection_count terms_of corpus r a b \<le> union_count terms_of corpus r a b"
    unfolding intersection_count_card union_count_card
    by (intro card_mono finite_UnI finite_matched_items)
  with assms show ?thesis by (simp add: cooccur_def)
qed

text \<open>
  C6. For every two groups and every date range the co-occurrence strength is symmetric,
  and it is the Jaccard measure of the two matched item sets: the size of their
  intersection over the size of their union. When no item matches either group that
  quotient does not exist and there is no strength, in both orders.
\<close>

theorem cooccur_symmetric_jaccard:
  "cooccur terms_of corpus r a b = cooccur terms_of corpus r b a \<and>
   (matched_items terms_of corpus r a \<union> matched_items terms_of corpus r b = {} \<longrightarrow>
      cooccur terms_of corpus r a b = None) \<and>
   (matched_items terms_of corpus r a \<union> matched_items terms_of corpus r b \<noteq> {} \<longrightarrow>
      cooccur terms_of corpus r a b =
        Some (of_nat (card (matched_items terms_of corpus r a \<inter> matched_items terms_of corpus r b)) /
              of_nat (card (matched_items terms_of corpus r a \<union> matched_items terms_of corpus r b))))"
proof (intro conjI impI)
  show "cooccur terms_of corpus r a b = cooccur terms_of corpus r b a"
    by (simp add: cooccur_def intersection_count_card union_count_card Int_commute Un_commute)
next
  assume "matched_items terms_of corpus r a \<union> matched_items terms_of corpus r b = {}"
  then show "cooccur terms_of corpus r a b = None"
    by (simp add: cooccur_def union_count_card)
next
  assume "matched_items terms_of corpus r a \<union> matched_items terms_of corpus r b \<noteq> {}"
  then have "card (matched_items terms_of corpus r a \<union> matched_items terms_of corpus r b) \<noteq> 0"
    by (simp add: finite_matched_items)
  then show "cooccur terms_of corpus r a b =
        Some (of_nat (card (matched_items terms_of corpus r a \<inter> matched_items terms_of corpus r b)) /
              of_nat (card (matched_items terms_of corpus r a \<union> matched_items terms_of corpus r b)))"
    by (simp add: cooccur_def intersection_count_card union_count_card)
qed

theorem cooccur_symmetric_jaccard_witness:
  "matched_items split example_corpus example_range example_group_a
     \<union> matched_items split example_corpus example_range example_group_b \<noteq> {} \<and>
   cooccur split example_corpus example_range example_group_a example_group_b = Some (1 / 2) \<and>
   cooccur split example_corpus example_range example_group_b example_group_a = Some (1 / 2) \<and>
   (of_nat (card (matched_items split example_corpus example_range example_group_a
                    \<inter> matched_items split example_corpus example_range example_group_b)) /
    of_nat (card (matched_items split example_corpus example_range example_group_a
                    \<union> matched_items split example_corpus example_range example_group_b)) :: rat) = 1 / 2"
proof -
  have "hd example_corpus \<in> matched_items split example_corpus example_range example_group_a"
    by (simp add: matched_items_def example_corpus_def example_range_def example_group_a_def
        in_range_def day_of_def item_matches_def item_terms_def matches_group_def
        split_def is_space_def lit_def)
  then have ne: "matched_items split example_corpus example_range example_group_a
     \<union> matched_items split example_corpus example_range example_group_b \<noteq> {}"
    by blast
  have val: "cooccur split example_corpus example_range example_group_a example_group_b = Some (1 / 2)"
    by (simp add: cooccur_def union_count_def intersection_count_def items_in_range_def
        example_corpus_def example_range_def example_group_a_def example_group_b_def
        in_range_def day_of_def item_matches_def item_terms_def matches_group_def
        split_def is_space_def lit_def)
  note jaccard = cooccur_symmetric_jaccard
         [of split example_corpus example_range example_group_a example_group_b]
  from jaccard val
  have sym: "cooccur split example_corpus example_range example_group_b example_group_a = Some (1 / 2)"
    by metis
  from jaccard ne val
  have quot: "(of_nat (card (matched_items split example_corpus example_range example_group_a
                    \<inter> matched_items split example_corpus example_range example_group_b)) /
    of_nat (card (matched_items split example_corpus example_range example_group_a
                    \<union> matched_items split example_corpus example_range example_group_b)) :: rat) = 1 / 2"
    by (metis option.inject)
  from ne val sym quot show ?thesis by (intro conjI)
qed

end
